theory Spec2Isabelle
  imports Complex_Main "HOL-Library.AList"
begin

unbundle bit_operations_syntax

section \<open>Decimal text of Python integers\<close>

text \<open>
  The f-strings of \<^verbatim>\<open>pipewire-screencast.py\<close> put integers into object paths, handle
  tokens and the pipeline description.  \<open>str_int\<close> is Python's \<^verbatim>\<open>str\<close> on an
  unbounded integer: decimal digits, most significant first, a leading minus sign for a
  negative number.
\<close>

definition digit_char :: "nat \<Rightarrow> char" where
  "digit_char d = char_of (48 + d)"

fun str_nat :: "nat \<Rightarrow> string" where
  "str_nat n = (if n < 10 then [digit_char n] else str_nat (n div 10) @ [digit_char (n mod 10)])"

definition str_int :: "int \<Rightarrow> string" where
  "str_int i = (if i < 0 then CHR ''-'' # str_nat (nat (- i)) else str_nat (nat i))"

text \<open>Reading a decimal text back; used only to state what a token's number is.\<close>

definition digit_val :: "char \<Rightarrow> nat" where
  "digit_val c = of_char c - 48"

definition nat_of_str :: "string \<Rightarrow> nat" where
  "nat_of_str s = foldl (\<lambda>a c. 10 * a + digit_val c) 0 s"

definition int_of_str :: "string \<Rightarrow> int" where
  "int_of_str s = (case s of
       [] \<Rightarrow> 0
     | c # r \<Rightarrow> if c = CHR ''-'' then - int (nat_of_str r) else int (nat_of_str s))"

text \<open>The number of a token \<^verbatim>\<open>u<k>\<close>: the text after the leading letter, read as decimal.\<close>

definition token_number :: "string \<Rightarrow> int" where
  "token_number token = int_of_str (tl token)"

section \<open>Values that cross the library boundaries\<close>

text \<open>Python and D-Bus values that the program passes to the portal.\<close>

datatype py_value = PyNone | PyStr string | PyBool bool | PyUInt32 nat

text \<open>A Python \<^verbatim>\<open>dict\<close> with string keys, in insertion order.\<close>

type_synonym options = "(string \<times> py_value) list"

text \<open>
  A stream as the portal's Start reply lists it: the PipeWire node id and a property
  dictionary, which the program never reads.
\<close>

type_synonym stream = "nat \<times> options"

text \<open>
  The \<^verbatim>\<open>results\<close> dictionary of a Response signal, reduced to the two keys the program
  reads, each present or absent.
\<close>

record results =
  session_handle :: "string option"
  streams :: "stream list option"

datatype error = KeyError string | TypeError | AttributeError | ValueError

text \<open>
  A callback either returns or raises; in both cases the mutations it made up to that
  point stay.
\<close>

datatype 'a outcome = Returned 'a | Raised error 'a

fun state_of :: "'a outcome \<Rightarrow> 'a" where
  "state_of (Returned w) = w"
| "state_of (Raised e w) = w"

text \<open>The three Response handlers of the handshake, and the methods they follow.\<close>

datatype handler = Select_sources | Start_portal | Process_streams

datatype portal_method = CreateSession | SelectSources | Start

text \<open>The only function the program ever passes to \<^verbatim>\<open>get_streams\<close>.\<close>

datatype callback = Get_streams_callback

datatype gst_state = NULL | PLAYING

text \<open>
  Where an event is sent: \<^verbatim>\<open>pipeline.send_event\<close> on the pipeline object itself, or
  \<^verbatim>\<open>pipeline.get_by_name(name).send_event\<close> on one named element of it.
\<close>

datatype gst_target = Whole_pipeline nat | Element nat string

text \<open>
  A \<^verbatim>\<open>GLib.Error\<close>: the domain quark (by its string), the code and the text.
  \<^verbatim>\<open>err.matches(domain, code)\<close> compares both.
\<close>

record gerror =
  domain :: string
  code :: int
  message :: string

definition resource_error_quark :: string where
  "resource_error_quark = ''gst-resource-error-quark''"

definition matches :: "gerror \<Rightarrow> string \<Rightarrow> int \<Rightarrow> bool" where
  "matches err d c \<longleftrightarrow> domain err = d \<and> code err = c"

text \<open>
  \<^verbatim>\<open>Gst.ResourceError(value)\<close>, the member of the enumeration \<^verbatim>\<open>GstResourceError\<close> with
  that value.  GStreamer's members are numbered from 1 (\<^verbatim>\<open>FAILED\<close>) to 16
  (\<^verbatim>\<open>NUM_ERRORS\<close>); for any other value the constructor raises \<^verbatim>\<open>ValueError\<close>.
\<close>

definition ResourceError :: "int \<Rightarrow> error + int" where
  "ResourceError v = (if 1 \<le> v \<and> v \<le> 16 then Inr v else Inl ValueError)"

text \<open>A bus message: its type, and for an error the parsed error and the source's name.\<close>

datatype gst_message = MESSAGE_EOS | MESSAGE_ERROR gerror string | MESSAGE_OTHER

datatype timer_function = Terminate

text \<open>A \<^verbatim>\<open>threading.Timer\<close>: its interval in seconds and the function it runs.\<close>

record timer =
  interval :: rat
  func :: timer_function

text \<open>Every call the program makes on the bus, the portal, GStreamer, GLib or a timer.\<close>

datatype effect =
    Print string
  | Add_signal_receiver handler string
  | Portal_call portal_method "py_value list" options
  | Open_pipewire_remote "string option"
  | Parse_launch nat string
  | Bus_add_signal_watch nat
  | Bus_connect nat
  | Set_state nat gst_state
  | Send_eos gst_target
  | Loop_quit
  | Timer_start timer
  | Timer_cancel timer
  | Callback_invoked "stream list option"

section \<open>The two classes and the world around them\<close>

record desktop_portal_manager =
  request_token_counter :: int
  session_token_counter :: int
  sender_name :: string
  session_path :: string
  session_token :: string
  session :: "string option"
  callback :: "callback option"

text \<open>
  \<open>PipewireRecorder\<close>.  The float \<^verbatim>\<open>crf\<close> and the path \<^verbatim>\<open>location\<close> are kept as the
  text an f-string gives for them, the only way the program uses them; the field
  \<^verbatim>\<open>_delayed_terminate\<close> is \<open>delayed_terminate_timer\<close>, the method of the same name
  keeps the name.  A pipeline is known by the number \<open>Gst.parse_launch\<close> gave it.
\<close>

record pipewire_recorder =
  pipeline :: "nat option"
  crf :: string
  vbv_maxrate :: int
  location :: string
  delayed_terminate_timer :: "timer option"

text \<open>
  The store: the two objects (the recorder's \<^verbatim>\<open>_dpm\<close> field points at the manager),
  the signal receivers registered on the session bus, the dictionary object that is the
  default of \<^verbatim>\<open>_dbus_screencast\<close>'s \<^verbatim>\<open>options\<close> parameter, what the portal and
  GStreamer will answer (the file descriptor of the \<open>k\<close>-th OpenPipeWireRemote call,
  the number of pipelines made so far), and the trace of calls made.
\<close>

record world =
  dpm :: desktop_portal_manager
  pwr :: pipewire_recorder
  receivers :: "(string \<times> handler) list"
  default_options :: options
  portal_fds :: "nat \<Rightarrow> int"
  fds_taken :: nat
  pipelines_made :: nat
  trace :: "effect list"

definition emit :: "effect \<Rightarrow> world \<Rightarrow> world" where
  "emit e w = w\<lparr>trace := trace w @ [e]\<rparr>"

section \<open>DesktopPortalManager\<close>

definition DESKTOP_PATH :: string where
  "DESKTOP_PATH = ''/org/freedesktop/portal/desktop''"

definition new_request_path :: "desktop_portal_manager \<Rightarrow> (string \<times> string) \<times> desktop_portal_manager" where
  "new_request_path d =
     (let d1 = d\<lparr>request_token_counter := request_token_counter d + 1\<rparr>;
          token = ''u'' @ str_int (request_token_counter d1);
          path = DESKTOP_PATH @ ''/request/'' @ sender_name d1 @ ''/'' @ token
      in ((path, token), d1))"

definition new_session_path :: "desktop_portal_manager \<Rightarrow> (string \<times> string) \<times> desktop_portal_manager" where
  "new_session_path d =
     (let d1 = d\<lparr>session_token_counter := session_token_counter d + 1\<rparr>;
          token = ''u'' @ str_int (session_token_counter d1);
          path = DESKTOP_PATH @ ''/session/'' @ sender_name d1 @ ''/'' @ token
      in ((path, token), d1))"

text \<open>
  \<^verbatim>\<open>__init__\<close>: the bus's unique name without its first character and with every dot
  replaced by an underscore, both counters at zero, then the session path and token.
\<close>

definition dpm_init :: "string \<Rightarrow> desktop_portal_manager" where
  "dpm_init unique_name =
     (let d = \<lparr>request_token_counter = 0, session_token_counter = 0,
               sender_name = map (\<lambda>c. if c = CHR ''.'' then CHR ''_'' else c) (drop 1 unique_name),
               session_path = [], session_token = [], session = None, callback = None\<rparr>;
          ((path, token), d1) = new_session_path d
      in d1\<lparr>session_path := path, session_token := token\<rparr>)"

text \<open>A run of \<open>n\<close> allocations, one after the other, with the pairs they returned.\<close>

fun new_request_paths :: "nat \<Rightarrow> desktop_portal_manager \<Rightarrow> (string \<times> string) list \<times> desktop_portal_manager" where
  "new_request_paths 0 d = ([], d)"
| "new_request_paths (Suc n) d =
     (let (pt, d1) = new_request_path d; (pts, d2) = new_request_paths n d1 in (pt # pts, d2))"

text \<open>
  \<^verbatim>\<open>_dbus_screencast(method, callback, *args, options={})\<close>: a new request path, a
  signal receiver for it, the token written into the options, then the method call with
  the options as its last argument.  \<open>opts = None\<close> is a call without \<^verbatim>\<open>options\<close>: the
  one default dictionary object is used and keeps what is written into it.
\<close>

definition dbus_screencast :: "portal_method \<Rightarrow> handler \<Rightarrow> py_value list \<Rightarrow> options option \<Rightarrow> world \<Rightarrow> world" where
  "dbus_screencast method cb args opts w =
     (let ((request_path, request_token), d1) = new_request_path (dpm w);
          w1 = emit (Add_signal_receiver cb request_path)
                 (w\<lparr>dpm := d1, receivers := receivers w @ [(request_path, cb)]\<rparr>);
          options = AList.update ''handle_token'' (PyStr request_token)
                      (case opts of None \<Rightarrow> default_options w1 | Some given \<Rightarrow> given);
          w2 = (case opts of None \<Rightarrow> w1\<lparr>default_options := options\<rparr> | Some given \<Rightarrow> w1)
      in emit (Portal_call method args options) w2)"

section \<open>PipewireRecorder\<close>

definition default_delay :: rat where
  "default_delay = 1"

definition delayed_terminate :: "rat \<Rightarrow> world \<Rightarrow> world" where
  "delayed_terminate delay w =
     (case delayed_terminate_timer (pwr w) of
        None \<Rightarrow>
          (let t = \<lparr>interval = delay, func = Terminate\<rparr>
           in emit (Timer_start t) (w\<lparr>pwr := (pwr w)\<lparr>delayed_terminate_timer := Some t\<rparr>\<rparr>))
      | Some t \<Rightarrow> w)"

definition terminate :: "world \<Rightarrow> world" where
  "terminate w =
     (let w1 = (case pipeline (pwr w) of Some p \<Rightarrow> emit (Set_state p NULL) w | None \<Rightarrow> w);
          w2 = emit Loop_quit w1
      in case delayed_terminate_timer (pwr w2) of Some t \<Rightarrow> emit (Timer_cancel t) w2 | None \<Rightarrow> w2)"

definition softexit :: "world \<Rightarrow> world" where
  "softexit w =
     (case pipeline (pwr w) of
        Some p \<Rightarrow>
          delayed_terminate default_delay
            (emit (Send_eos (Whole_pipeline p))
               (emit (Print ''Caught SIGINT, trying to exit gracefully.'') w))
      | None \<Rightarrow> emit Loop_quit w)"

text \<open>
  \<^verbatim>\<open>_gst_message_callback\<close>.  The arguments of \<^verbatim>\<open>err.matches\<close> are evaluated before the
  call, so an error code that is no \<^verbatim>\<open>GstResourceError\<close> value raises before anything
  is printed or changed.
\<close>

definition gst_message_callback :: "gst_message \<Rightarrow> world \<Rightarrow> world outcome" where
  "gst_message_callback msg w =
     (case msg of
        MESSAGE_EOS \<Rightarrow> Returned (terminate w)
      | MESSAGE_ERROR err src \<Rightarrow>
          (case ResourceError (code err) of
             Inl e \<Rightarrow> Raised e w
           | Inr c \<Rightarrow>
               if matches err resource_error_quark c then
                 (let w1 = delayed_terminate default_delay
                             (emit (Print ''Stream ended, trying to quit gracefully.'') w)
                  in case pipeline (pwr w1) of
                       None \<Rightarrow> Raised AttributeError w1
                     | Some p \<Rightarrow> Returned (emit (Send_eos (Element p ''sink'')) w1))
               else Returned (emit (Print (''Error: '' @ src @ '' '' @ message err)) w))
      | MESSAGE_OTHER \<Rightarrow> Returned w)"

definition get_pipewire_fd :: "world \<Rightarrow> int \<times> world" where
  "get_pipewire_fd w =
     (portal_fds w (fds_taken w),
      emit (Open_pipewire_remote (session (dpm w))) (w\<lparr>fds_taken := Suc (fds_taken w)\<rparr>))"

definition pipeline_description :: "int \<Rightarrow> nat \<Rightarrow> string \<Rightarrow> int \<Rightarrow> string \<Rightarrow> string" where
  "pipeline_description fd node_id crf_text bitrate loc =
     ''pipewiresrc fd='' @ str_int fd @ '' path='' @ str_int (int node_id)
     @ '' ! videoconvert''
     @ '' ! queue''
     @ '' ! x264enc intra-refresh=true quantizer='' @ crf_text
     @ '' speed-preset=fast pass=qual bitrate='' @ str_int bitrate
     @ '' ! h264parse''
     @ '' ! matroskamux name=sink''
     @ '' ! filesink location='' @ [CHR 0x22] @ loc @ [CHR 0x22]"

text \<open>\<^verbatim>\<open>_record(node_id)\<close>.\<close>

definition record_node :: "nat \<Rightarrow> world \<Rightarrow> world" where
  "record_node node_id w =
     (let (fd, w1) = get_pipewire_fd w;
          p = pipelines_made w1;
          r = pwr w1;
          w2 = emit (Parse_launch p (pipeline_description fd node_id (crf r) (vbv_maxrate r) (location r)))
                 (w1\<lparr>pipelines_made := Suc p\<rparr>);
          w3 = w2\<lparr>pwr := r\<lparr>pipeline := Some p\<rparr>\<rparr>;
          w4 = emit (Bus_connect p) (emit (Bus_add_signal_watch p) w3);
          w5 = emit (Print (''Saving file to '' @ location (pwr w4))) w4
      in emit (Set_state p PLAYING) w5)"

text \<open>The \<^verbatim>\<open>for\<close> loop of \<^verbatim>\<open>get_streams_callback\<close>.\<close>

fun record_streams :: "stream list \<Rightarrow> world \<Rightarrow> world" where
  "record_streams [] w = w"
| "record_streams ((node_id, stream_properties) # rest) w =
     record_streams rest (record_node node_id (emit (Print (''Stream '' @ str_int (int node_id))) w))"

definition get_streams_callback :: "stream list option \<Rightarrow> world \<Rightarrow> world" where
  "get_streams_callback found w =
     (case found of None \<Rightarrow> terminate w | Some l \<Rightarrow> record_streams l w)"

section \<open>The Response handlers\<close>

text \<open>
  \<^verbatim>\<open>self._callback(x)\<close>: calling \<^verbatim>\<open>None\<close> raises; otherwise the stored function runs.
  The call itself is written to the trace.
\<close>

definition call_callback :: "stream list option \<Rightarrow> world \<Rightarrow> world outcome" where
  "call_callback x w =
     (case callback (dpm w) of
        None \<Rightarrow> Raised TypeError w
      | Some Get_streams_callback \<Rightarrow> Returned (get_streams_callback x (emit (Callback_invoked x) w)))"

definition process_streams :: "nat \<Rightarrow> results \<Rightarrow> world \<Rightarrow> world outcome" where
  "process_streams response res w =
     (if response \<noteq> 0 then
        call_callback None (emit (Print ''Did not receive streams from portal.'') w)
      else
        (let w1 = emit (Print ''Sources selected'') w
         in case streams res of
              None \<Rightarrow> Raised (KeyError ''streams'') w1
            | Some found \<Rightarrow> call_callback (Some found) w1))"

definition session_arg :: "string option \<Rightarrow> py_value" where
  "session_arg s = (case s of None \<Rightarrow> PyNone | Some h \<Rightarrow> PyStr h)"

definition start_portal :: "nat \<Rightarrow> results \<Rightarrow> world \<Rightarrow> world outcome" where
  "start_portal response res w =
     (if response \<noteq> 0 then
        call_callback None (emit (Print (''Failed to select sources: '' @ str_int (int response))) w)
      else
        Returned (dbus_screencast Start Process_streams
                    [session_arg (session (dpm w)), PyStr []] None w))"

definition select_sources :: "nat \<Rightarrow> results \<Rightarrow> world \<Rightarrow> world outcome" where
  "select_sources response res w =
     (if response \<noteq> 0 then
        call_callback None (emit (Print (''Failed to create session: '' @ str_int (int response))) w)
      else
        (case session_handle res of
           None \<Rightarrow> Raised (KeyError ''session_handle'') w
         | Some h \<Rightarrow>
             (let w1 = w\<lparr>dpm := (dpm w)\<lparr>session := Some h\<rparr>\<rparr>;
                  w2 = emit (Print (''session '' @ h @ '' created'')) w1
              in Returned (dbus_screencast SelectSources Start_portal
                             [session_arg (session (dpm w2))]
                             (Some [(''multiple'', PyBool False), (''types'', PyUInt32 (1 OR 2))]) w2))))"

definition get_streams :: "callback \<Rightarrow> world \<Rightarrow> world" where
  "get_streams cb w =
     (let w1 = w\<lparr>dpm := (dpm w)\<lparr>callback := Some cb\<rparr>\<rparr>
      in dbus_screencast CreateSession Select_sources []
           (Some [(''session_handle_token'', PyStr (session_token (dpm w1)))]) w1)"

text \<open>\<^verbatim>\<open>PipewireRecorder.record()\<close>.\<close>

definition pwr_record :: "world \<Rightarrow> world" where
  "pwr_record w = get_streams Get_streams_callback w"

section \<open>Start of the program and the events of its run loop\<close>

definition pwr_init :: "string \<Rightarrow> int \<Rightarrow> string \<Rightarrow> pipewire_recorder" where
  "pwr_init crf_text maxrate loc =
     \<lparr>pipeline = None, crf = crf_text, vbv_maxrate = maxrate, location = loc,
      delayed_terminate_timer = None\<rparr>"

text \<open>
  The world when \<^verbatim>\<open>main\<close> has built the recorder: \<open>unique_name\<close> is the bus's name for
  the connection, \<open>fds\<close> what OpenPipeWireRemote will answer.
\<close>

definition init_world :: "string \<Rightarrow> string \<Rightarrow> int \<Rightarrow> string \<Rightarrow> (nat \<Rightarrow> int) \<Rightarrow> world" where
  "init_world unique_name crf_text maxrate loc fds =
     \<lparr>dpm = dpm_init unique_name, pwr = pwr_init crf_text maxrate loc, receivers = [],
      default_options = [], portal_fds = fds, fds_taken = 0, pipelines_made = 0, trace = []\<rparr>"

text \<open>
  What the run loop dispatches: a Response signal on an object path, a message on a
  pipeline's bus, the interrupt signal, the expiry of the drain timer.
\<close>

datatype event =
    Response string nat results
  | Bus_message gst_message
  | Sigint
  | Timer_expired

fun run_handler :: "handler \<Rightarrow> nat \<Rightarrow> results \<Rightarrow> world \<Rightarrow> world outcome" where
  "run_handler Select_sources response res w = select_sources response res w"
| "run_handler Start_portal response res w = start_portal response res w"
| "run_handler Process_streams response res w = process_streams response res w"

text \<open>
  The bus calls every receiver registered for the path, in the order of registration; an
  exception in a receiver is reported and the loop goes on.
\<close>

fun deliver :: "handler list \<Rightarrow> nat \<Rightarrow> results \<Rightarrow> world \<Rightarrow> world" where
  "deliver [] response res w = w"
| "deliver (h # hs) response res w = deliver hs response res (state_of (run_handler h response res w))"

definition on_response :: "string \<Rightarrow> nat \<Rightarrow> results \<Rightarrow> world \<Rightarrow> world" where
  "on_response path response res w =
     deliver (map snd (filter (\<lambda>(p, h). p = path) (receivers w))) response res w"

fun step :: "event \<Rightarrow> world \<Rightarrow> world" where
  "step (Response path response res) w = on_response path response res w"
| "step (Bus_message msg) w = state_of (gst_message_callback msg w)"
| "step Sigint w = softexit w"
| "step Timer_expired w = terminate w"

fun run :: "event list \<Rightarrow> world \<Rightarrow> world" where
  "run [] w = w"
| "run (e # es) w = run es (step e w)"

text \<open>
  A handshake run: the portal answers the request registered last; when the answer made
  the program register no new request, nothing is left for the portal to answer.
\<close>

fun handshake :: "(nat \<times> results) list \<Rightarrow> world \<Rightarrow> world" where
  "handshake [] w = w"
| "handshake ((response, res) # rest) w =
     (case receivers w of
        [] \<Rightarrow> w
      | r # rs \<Rightarrow>
          (let w1 = on_response (fst (last (receivers w))) response res w
           in if length (receivers w1) = length (receivers w) then w1 else handshake rest w1))"

section \<open>Reading a trace\<close>

fun portal_methods :: "effect list \<Rightarrow> portal_method list" where
  "portal_methods [] = []"
| "portal_methods (Portal_call m args opts # es) = m # portal_methods es"
| "portal_methods (e # es) = portal_methods es"

fun callback_calls :: "effect list \<Rightarrow> stream list option list" where
  "callback_calls [] = []"
| "callback_calls (Callback_invoked x # es) = x # callback_calls es"
| "callback_calls (e # es) = callback_calls es"

fun remote_opens :: "effect list \<Rightarrow> nat" where
  "remote_opens [] = 0"
| "remote_opens (Open_pipewire_remote s # es) = Suc (remote_opens es)"
| "remote_opens (e # es) = remote_opens es"

fun launches :: "effect list \<Rightarrow> (nat \<times> string) list" where
  "launches [] = []"
| "launches (Parse_launch p d # es) = (p, d) # launches es"
| "launches (e # es) = launches es"

fun timers_started :: "effect list \<Rightarrow> timer list" where
  "timers_started [] = []"
| "timers_started (Timer_start t # es) = t # timers_started es"
| "timers_started (e # es) = timers_started es"

fun null_requests :: "nat \<Rightarrow> effect list \<Rightarrow> nat" where
  "null_requests p [] = 0"
| "null_requests p (Set_state q s # es) = (if q = p \<and> s = NULL then 1 else 0) + null_requests p es"
| "null_requests p (e # es) = null_requests p es"

fun loop_quits :: "effect list \<Rightarrow> nat" where
  "loop_quits [] = 0"
| "loop_quits (Loop_quit # es) = Suc (loop_quits es)"
| "loop_quits (e # es) = loop_quits es"

fun eos_targets :: "effect list \<Rightarrow> gst_target list" where
  "eos_targets [] = []"
| "eos_targets (Send_eos t # es) = t # eos_targets es"
| "eos_targets (e # es) = eos_targets es"

section \<open>Concrete worlds and errors\<close>

text \<open>
  A freshly built recorder, the same recorder after \<^verbatim>\<open>_record(42)\<close>, a resource error
  and an error of another domain.
\<close>

definition example_start :: world where
  "example_start = init_world '':1.42'' ''18'' 10000 ''/home/u/out.mkv'' int"

definition example_recording :: world where
  "example_recording = record_node 42 example_start"

definition resource_not_found :: gerror where
  "resource_not_found = \<lparr>domain = ''gst-resource-error-quark'', code = 3, message = ''stream gone''\<rparr>"


definition reply_session :: results where
  "reply_session = \<lparr>session_handle = Some ''/s/1'', streams = None\<rparr>"

definition reply_empty :: results where
  "reply_empty = \<lparr>session_handle = None, streams = None\<rparr>"

text \<open>CreateSession is granted, SelectSources is refused with response code 1.\<close>

definition replies_refused :: "(nat \<times> results) list" where
  "replies_refused = [(0, reply_session), (1, reply_empty)]"

definition reply_two_streams :: results where
  "reply_two_streams = \<lparr>session_handle = None, streams = Some [(42, []), (43, [])]\<rparr>"

section \<open>How the timer field and the timers started may change\<close>

text \<open>
  From \<open>w\<close> to \<open>w'\<close> the timer field and the list of timers started are as before, or
  the field was empty and now holds the one timer started in between.
\<close>

definition timer_step :: "world \<Rightarrow> world \<Rightarrow> bool" where
  "timer_step w w' \<longleftrightarrow>
     (case delayed_terminate_timer (pwr w) of
        Some t \<Rightarrow>
          delayed_terminate_timer (pwr w') = Some t
          \<and> timers_started (trace w') = timers_started (trace w)
      | None \<Rightarrow>
          (delayed_terminate_timer (pwr w') = None
           \<and> timers_started (trace w') = timers_started (trace w))
          \<or> (\<exists>t. delayed_terminate_timer (pwr w') = Some t
                  \<and> timers_started (trace w') = timers_started (trace w) @ [t]))"

section \<open>Request tokens\<close>

declare str_nat.simps [simp del]

lemma digit_val_digit_char: "d < 10 \<Longrightarrow> digit_val (digit_char d) = d"
  by (simp add: digit_val_def digit_char_def)

lemma nat_of_str_snoc: "nat_of_str (s @ [c]) = 10 * nat_of_str s + digit_val c"
  by (simp add: nat_of_str_def)

lemma nat_of_str_str_nat: "nat_of_str (str_nat n) = n"
proof (induction n rule: str_nat.induct)
  case (1 n)
  show ?case
  proof (cases "n < 10")
    case True
    then show ?thesis
      by (simp add: str_nat.simps [of n] nat_of_str_def digit_val_digit_char)
  next
    case False
    with 1 have "nat_of_str (str_nat (n div 10)) = n div 10" by simp
    with False show ?thesis
      by (simp add: str_nat.simps [of n] nat_of_str_snoc digit_val_digit_char)
  qed
qed

lemma digit_char_not_minus: "d < 10 \<Longrightarrow> digit_char d \<noteq> CHR ''-''"
proof
  assume d: "d < 10" and eq: "digit_char d = CHR ''-''"
  from eq have "of_char (digit_char d) = (of_char (CHR ''-'') :: nat)" by simp
  with d show False by (simp add: digit_char_def)
qed

lemma str_nat_hd: "\<exists>c r. str_nat n = c # r \<and> c \<noteq> CHR ''-''"
proof (induction n rule: str_nat.induct)
  case (1 n)
  show ?case
  proof (cases "n < 10")
    case True
    then show ?thesis
      by (simp add: str_nat.simps [of n] digit_char_not_minus)
  next
    case False
    with 1 obtain c r where "str_nat (n div 10) = c # r" "c \<noteq> CHR ''-''" by auto
    with False show ?thesis
      by (simp add: str_nat.simps [of n])
  qed
qed

lemma int_of_str_str_int: "int_of_str (str_int i) = i"
proof (cases "i < 0")
  case True
  then show ?thesis
    by (simp add: int_of_str_def str_int_def nat_of_str_str_nat)
next
  case False
  obtain c r where cr: "str_nat (nat i) = c # r" "c \<noteq> CHR ''-''"
    using str_nat_hd by blast
  have "nat_of_str (c # r) = nat i"
    using nat_of_str_str_nat [of "nat i"] cr by simp
  with False cr show ?thesis
    by (simp add: int_of_str_def str_int_def)
qed

lemma token_number_token: "token_number (CHR ''u'' # str_int k) = k"
  by (simp add: token_number_def int_of_str_str_int)

lemma upt_0_Suc_shift: "[0..<Suc n] = 0 # map Suc [0..<n]"
  by (simp only: map_Suc_upt upt_conv_Cons [of 0 "Suc n"])

lemma new_request_paths_tokens:
  "map (token_number \<circ> snd) (fst (new_request_paths n d)) =
     map (\<lambda>k. request_token_counter d + 1 + int k) [0..<n]"
proof (induction n arbitrary: d)
  case 0
  show ?case by simp
next
  case (Suc n)
  have "map (token_number \<circ> snd) (fst (new_request_paths (Suc n) d)) =
        (request_token_counter d + 1) #
        map (token_number \<circ> snd) (fst (new_request_paths n (snd (new_request_path d))))"
    by (simp add: new_request_path_def Let_def split_beta token_number_token)
  also have "\<dots> = (request_token_counter d + 1) #
        map (\<lambda>k. request_token_counter d + 1 + 1 + int k) [0..<n]"
    by (simp add: Suc new_request_path_def Let_def)
  also have "\<dots> = map (\<lambda>k. request_token_counter d + 1 + int k) [0..<Suc n]"
    by (simp only: upt_0_Suc_shift) (simp add: comp_def)
  finally show ?case .
qed

lemma new_request_paths_sender:
  "sender_name (snd (new_request_paths n d)) = sender_name d"
  by (induction n arbitrary: d) (simp_all add: new_request_path_def Let_def split_beta)

lemma new_request_paths_paths:
  "map fst (fst (new_request_paths n d)) =
     map (\<lambda>t. DESKTOP_PATH @ ''/request/'' @ sender_name d @ ''/'' @ t) (map snd (fst (new_request_paths n d)))"
proof (induction n arbitrary: d)
  case 0
  show ?case by simp
next
  case (Suc n)
  show ?case
    using Suc [of "snd (new_request_path d)"]
    by (simp add: new_request_path_def Let_def split_beta)
qed

lemma increasing_from: "sorted_wrt (<) (map (\<lambda>k. c + int k) [a..<b])"
  by (simp add: sorted_wrt_map sorted_wrt_iff_nth_less)

text \<open>
  C7: however many request paths are allocated one after the other, the numbers of the
  tokens issued are strictly increasing, so no token and no request path is issued twice.
\<close>

theorem request_tokens_strictly_increasing:
  "sorted_wrt (<) (map (token_number \<circ> snd) (fst (new_request_paths n d)))
   \<and> distinct (map snd (fst (new_request_paths n d)))
   \<and> distinct (map fst (fst (new_request_paths n d)))"
proof -
  let ?issued = "fst (new_request_paths n d)"
  have inc: "sorted_wrt (<) (map (token_number \<circ> snd) ?issued)"
    by (simp only: new_request_paths_tokens increasing_from)
  then have "distinct (map (token_number \<circ> snd) ?issued)"
    using strict_sorted_iff by blast
  then have "distinct (map token_number (map snd ?issued))"
    by simp
  then have tokens: "distinct (map snd ?issued)"
    using distinct_map [of token_number "map snd ?issued"] by blast
  have "distinct (map (\<lambda>t. DESKTOP_PATH @ ''/request/'' @ sender_name d @ ''/'' @ t) (map snd ?issued))"
    using tokens by (simp only: distinct_map) (simp add: inj_on_def)
  then have "distinct (map fst ?issued)"
    by (simp only: new_request_paths_paths)
  with inc tokens show ?thesis by simp
qed

section \<open>Reading the world after a call\<close>

lemma emit_fields [simp]:
  "dpm (emit e w) = dpm w"
  "pwr (emit e w) = pwr w"
  "receivers (emit e w) = receivers w"
  "default_options (emit e w) = default_options w"
  "portal_fds (emit e w) = portal_fds w"
  "fds_taken (emit e w) = fds_taken w"
  "pipelines_made (emit e w) = pipelines_made w"
  "trace (emit e w) = trace w @ [e]"
  by (simp_all add: emit_def)

lemma portal_methods_append [simp]:
  "portal_methods (xs @ ys) = portal_methods xs @ portal_methods ys"
  by (induction xs rule: portal_methods.induct) simp_all

lemma callback_calls_append [simp]:
  "callback_calls (xs @ ys) = callback_calls xs @ callback_calls ys"
  by (induction xs rule: callback_calls.induct) simp_all

lemma remote_opens_append [simp]:
  "remote_opens (xs @ ys) = remote_opens xs + remote_opens ys"
  by (induction xs rule: remote_opens.induct) simp_all

lemma launches_append [simp]:
  "launches (xs @ ys) = launches xs @ launches ys"
  by (induction xs rule: launches.induct) simp_all

lemma timers_started_append [simp]:
  "timers_started (xs @ ys) = timers_started xs @ timers_started ys"
  by (induction xs rule: timers_started.induct) simp_all

lemma null_requests_append [simp]:
  "null_requests p (xs @ ys) = null_requests p xs + null_requests p ys"
  by (induction p xs rule: null_requests.induct) simp_all

lemma loop_quits_append [simp]:
  "loop_quits (xs @ ys) = loop_quits xs + loop_quits ys"
  by (induction xs rule: loop_quits.induct) simp_all

lemma eos_targets_append [simp]:
  "eos_targets (xs @ ys) = eos_targets xs @ eos_targets ys"
  by (induction xs rule: eos_targets.induct) simp_all

lemma terminate_pwr [simp]: "pwr (terminate w) = pwr w"
  by (simp add: terminate_def Let_def split: option.splits)

lemma terminate_dpm [simp]: "dpm (terminate w) = dpm w"
  by (simp add: terminate_def Let_def split: option.splits)

lemma terminate_counts:
  "pipeline (pwr w) = Some p \<Longrightarrow>
     null_requests p (trace (terminate w)) = null_requests p (trace w) + 1
     \<and> loop_quits (trace (terminate w)) = loop_quits (trace w) + 1"
  by (simp add: terminate_def Let_def split: option.splits)

lemma delayed_terminate_dpm [simp]: "dpm (delayed_terminate delay w) = dpm w"
  by (simp add: delayed_terminate_def Let_def split: option.splits)

lemma delayed_terminate_pipeline [simp]:
  "pipeline (pwr (delayed_terminate delay w)) = pipeline (pwr w)"
  by (simp add: delayed_terminate_def Let_def split: option.splits)

lemma delayed_terminate_eos [simp]:
  "eos_targets (trace (delayed_terminate delay w)) = eos_targets (trace w)"
  by (simp add: delayed_terminate_def Let_def split: option.splits)

lemma delayed_terminate_timer:
  "delayed_terminate_timer (pwr (delayed_terminate delay w)) =
     Some (case delayed_terminate_timer (pwr w) of
             None \<Rightarrow> \<lparr>interval = delay, func = Terminate\<rparr> | Some t \<Rightarrow> t)"
  by (simp add: delayed_terminate_def Let_def split: option.splits)

lemma delayed_terminate_started:
  "timers_started (trace (delayed_terminate delay w)) =
     timers_started (trace w) @
     (case delayed_terminate_timer (pwr w) of
        None \<Rightarrow> [\<lparr>interval = delay, func = Terminate\<rparr>] | Some t \<Rightarrow> [])"
  by (simp add: delayed_terminate_def Let_def split: option.splits)

lemma example_recording_pwr:
  "pwr example_recording = \<lparr>pipeline = Some 0, crf = ''18'', vbv_maxrate = 10000,
     location = ''/home/u/out.mkv'', delayed_terminate_timer = None\<rparr>"
  by (simp add: example_recording_def example_start_def record_node_def get_pipewire_fd_def
        init_world_def pwr_init_def Let_def)

lemma example_recording_counts:
  "null_requests 0 (trace example_recording) = 0 \<and> loop_quits (trace example_recording) = 0
   \<and> eos_targets (trace example_recording) = [] \<and> timers_started (trace example_recording) = []"
  by (simp add: example_recording_def example_start_def record_node_def get_pipewire_fd_def
        init_world_def pwr_init_def Let_def)

section \<open>Termination\<close>

text \<open>
  C2, as the code has it: with a live pipeline, every call of \<open>terminate\<close> asks for the
  NULL state of the current pipeline once and asks the run loop to quit once, and leaves
  the recorder's fields as they were.  Nothing records that termination has run, so a
  second call repeats both requests: two NULL requests and two quit requests in all.
\<close>

theorem terminate_twice_repeats_requests:
  assumes "pipeline (pwr w) = Some p"
  shows "pwr (terminate w) = pwr w
     \<and> null_requests p (trace (terminate w)) = null_requests p (trace w) + 1
     \<and> loop_quits (trace (terminate w)) = loop_quits (trace w) + 1
     \<and> null_requests p (trace (terminate (terminate w))) = null_requests p (trace w) + 2
     \<and> loop_quits (trace (terminate (terminate w))) = loop_quits (trace w) + 2"
proof -
  have one: "null_requests p (trace (terminate w)) = null_requests p (trace w) + 1
             \<and> loop_quits (trace (terminate w)) = loop_quits (trace w) + 1"
    using assms by (rule terminate_counts)
  have "pipeline (pwr (terminate w)) = Some p"
    using assms by simp
  then have two: "null_requests p (trace (terminate (terminate w))) = null_requests p (trace (terminate w)) + 1
             \<and> loop_quits (trace (terminate (terminate w))) = loop_quits (trace (terminate w)) + 1"
    by (rule terminate_counts)
  from one two show ?thesis by simp
qed

theorem terminate_twice_repeats_requests_witness:
  "pipeline (pwr example_recording) = Some 0
   \<and> null_requests 0 (trace (terminate (terminate example_recording))) = 2
   \<and> loop_quits (trace (terminate (terminate example_recording))) = 2"
  using terminate_twice_repeats_requests [of example_recording 0]
  by (simp add: example_recording_pwr example_recording_counts)

text \<open>
  C2 as stated fails: after \<^verbatim>\<open>_record(42)\<close> on a fresh recorder, two calls of
  \<open>terminate\<close> ask twice for the NULL state of pipeline 0 and twice for the loop to quit.
\<close>

theorem terminate_twice_counterexample:
  "pipeline (pwr example_recording) = Some 0
   \<and> null_requests 0 (trace example_recording) = 0
   \<and> loop_quits (trace example_recording) = 0
   \<and> null_requests 0 (trace (terminate example_recording)) = 1
   \<and> loop_quits (trace (terminate example_recording)) = 1
   \<and> null_requests 0 (trace (terminate (terminate example_recording))) = 2
   \<and> loop_quits (trace (terminate (terminate example_recording))) = 2"
proof -
  have p: "pipeline (pwr example_recording) = Some 0"
    by (simp add: example_recording_pwr)
  have p': "pipeline (pwr (terminate example_recording)) = Some 0"
    by (simp add: example_recording_pwr)
  show ?thesis
    using terminate_counts [OF p] terminate_counts [OF p']
    by (simp add: example_recording_pwr example_recording_counts)
qed

section \<open>Entering the drain\<close>

text \<open>
  C3, as the code has it: with a pipeline present, a resource error on the bus (the
  resource domain and a code \<open>c\<close> that is a \<^verbatim>\<open>GstResourceError\<close> value) sends the
  end-of-stream event to the element named \<^verbatim>\<open>sink\<close> of the current pipeline, while the
  interrupt handler sends it to the pipeline as a whole; both leave a timer in the
  recorder's timer field, starting a new one (one second, running \<open>terminate\<close>) exactly
  when the field was empty.
\<close>

theorem drain_triggers_send_eos:
  assumes "pipeline (pwr w) = Some p"
  shows "(ResourceError (code err) = Inr c \<and> matches err resource_error_quark c \<longrightarrow>
            gst_message_callback (MESSAGE_ERROR err src) w
              = Returned (state_of (gst_message_callback (MESSAGE_ERROR err src) w))
          \<and> eos_targets (trace (state_of (gst_message_callback (MESSAGE_ERROR err src) w)))
              = eos_targets (trace w) @ [Element p ''sink'']
          \<and> delayed_terminate_timer (pwr (state_of (gst_message_callback (MESSAGE_ERROR err src) w)))
              = Some (case delayed_terminate_timer (pwr w) of
                        None \<Rightarrow> \<lparr>interval = 1, func = Terminate\<rparr> | Some t \<Rightarrow> t)
          \<and> timers_started (trace (state_of (gst_message_callback (MESSAGE_ERROR err src) w)))
              = timers_started (trace w) @
                (case delayed_terminate_timer (pwr w) of
                   None \<Rightarrow> [\<lparr>interval = 1, func = Terminate\<rparr>] | Some t \<Rightarrow> []))
       \<and> eos_targets (trace (softexit w)) = eos_targets (trace w) @ [Whole_pipeline p]
       \<and> delayed_terminate_timer (pwr (softexit w))
              = Some (case delayed_terminate_timer (pwr w) of
                        None \<Rightarrow> \<lparr>interval = 1, func = Terminate\<rparr> | Some t \<Rightarrow> t)
       \<and> timers_started (trace (softexit w))
              = timers_started (trace w) @
                (case delayed_terminate_timer (pwr w) of
                   None \<Rightarrow> [\<lparr>interval = 1, func = Terminate\<rparr>] | Some t \<Rightarrow> [])"
  using assms
  by (simp add: gst_message_callback_def softexit_def Let_def default_delay_def
        delayed_terminate_timer delayed_terminate_started)

theorem drain_triggers_send_eos_witness:
  "pipeline (pwr example_recording) = Some 0
   \<and> ResourceError (code resource_not_found) = Inr 3
   \<and> matches resource_not_found resource_error_quark 3
   \<and> gst_message_callback (MESSAGE_ERROR resource_not_found ''pipewiresrc0'') example_recording
       = Returned (state_of (gst_message_callback (MESSAGE_ERROR resource_not_found ''pipewiresrc0'') example_recording))
   \<and> eos_targets (trace (state_of (gst_message_callback (MESSAGE_ERROR resource_not_found ''pipewiresrc0'') example_recording)))
       = [Element 0 ''sink'']
   \<and> timers_started (trace (state_of (gst_message_callback (MESSAGE_ERROR resource_not_found ''pipewiresrc0'') example_recording)))
       = [\<lparr>interval = 1, func = Terminate\<rparr>]
   \<and> eos_targets (trace (softexit example_recording)) = [Whole_pipeline 0]
   \<and> timers_started (trace (softexit example_recording)) = [\<lparr>interval = 1, func = Terminate\<rparr>]"
proof -
  have p: "pipeline (pwr example_recording) = Some 0"
    by (simp add: example_recording_pwr)
  have valid: "ResourceError (code resource_not_found) = Inr 3"
    by (simp add: ResourceError_def resource_not_found_def)
  have vanished: "matches resource_not_found resource_error_quark 3"
    by (simp add: matches_def resource_not_found_def resource_error_quark_def)
  show ?thesis
    using p valid vanished
      drain_triggers_send_eos [OF p, of resource_not_found 3 "''pipewiresrc0''"]
    by (simp add: example_recording_pwr example_recording_counts)
qed

text \<open>
  C3 as stated fails for the interrupt: on the recorder after \<^verbatim>\<open>_record(42)\<close>,
  \<open>softexit\<close> sends the event to pipeline 0 as a whole and nothing to its \<^verbatim>\<open>sink\<close>.
\<close>

theorem interrupt_eos_counterexample:
  "pipeline (pwr example_recording) = Some 0
   \<and> eos_targets (trace example_recording) = []
   \<and> eos_targets (trace (softexit example_recording)) = [Whole_pipeline 0]
   \<and> Element 0 ''sink'' \<notin> set (eos_targets (trace (softexit example_recording)))"
  by (simp add: softexit_def example_recording_pwr example_recording_counts)

section \<open>Other bus errors\<close>



text \<open>
  An error whose code is no \<^verbatim>\<open>GstResourceError\<close> value, whatever its domain: the callback
  raises with the world as it was, so nothing is printed and nothing is torn down.
\<close>

lemma error_code_outside_enumeration_raises:
  "ResourceError (code err) = Inl e \<Longrightarrow>
     gst_message_callback (MESSAGE_ERROR err src) w = Raised e w"
  by (simp add: gst_message_callback_def)

lemma io_error_code_24_raises:
  "gst_message_callback
     (MESSAGE_ERROR \<lparr>domain = ''g-io-error-quark'', code = 24, message = ''timed out''\<rparr> ''filesink0'')
     example_recording
   = Raised ValueError example_recording"
  by (simp add: gst_message_callback_def ResourceError_def)

section \<open>Interrupt before any pipeline\<close>

text \<open>
  C9: with no pipeline, \<open>softexit\<close> asks the run loop to quit and does nothing else: no
  end-of-stream event is sent and no timer is started.
\<close>

theorem softexit_without_pipeline:
  assumes "pipeline (pwr w) = None"
  shows "softexit w = w\<lparr>trace := trace w @ [Loop_quit]\<rparr>"
  using assms by (simp add: softexit_def emit_def)

lemma dbus_screencast_pwr [simp]: "pwr (dbus_screencast m h args opts w) = pwr w"
  by (simp add: dbus_screencast_def Let_def split_beta split: option.splits)

theorem softexit_without_pipeline_witness:
  "pipeline (pwr (pwr_record example_start)) = None
   \<and> softexit (pwr_record example_start)
       = (pwr_record example_start)\<lparr>trace := trace (pwr_record example_start) @ [Loop_quit]\<rparr>"
proof -
  have h: "pipeline (pwr (pwr_record example_start)) = None"
    by (simp add: pwr_record_def get_streams_def Let_def example_start_def init_world_def pwr_init_def)
  show ?thesis
    using h softexit_without_pipeline [OF h] by simp
qed

section \<open>Pipelines and file descriptors per stream\<close>

lemma record_node_effect:
  "record_node node_id w =
     w\<lparr>fds_taken := Suc (fds_taken w),
       pipelines_made := Suc (pipelines_made w),
       pwr := (pwr w)\<lparr>pipeline := Some (pipelines_made w)\<rparr>,
       trace := trace w @
         [Open_pipewire_remote (session (dpm w)),
          Parse_launch (pipelines_made w)
            (pipeline_description (portal_fds w (fds_taken w)) node_id
               (crf (pwr w)) (vbv_maxrate (pwr w)) (location (pwr w))),
          Bus_add_signal_watch (pipelines_made w),
          Bus_connect (pipelines_made w),
          Print (''Saving file to '' @ location (pwr w)),
          Set_state (pipelines_made w) PLAYING]\<rparr>"
  by (simp add: record_node_def get_pipewire_fd_def emit_def Let_def)

lemma record_node_fields [simp]:
  "dpm (record_node n w) = dpm w"
  "receivers (record_node n w) = receivers w"
  "portal_fds (record_node n w) = portal_fds w"
  "fds_taken (record_node n w) = Suc (fds_taken w)"
  "pipelines_made (record_node n w) = Suc (pipelines_made w)"
  "crf (pwr (record_node n w)) = crf (pwr w)"
  "vbv_maxrate (pwr (record_node n w)) = vbv_maxrate (pwr w)"
  "location (pwr (record_node n w)) = location (pwr w)"
  "delayed_terminate_timer (pwr (record_node n w)) = delayed_terminate_timer (pwr w)"
  "pipeline (pwr (record_node n w)) = Some (pipelines_made w)"
  by (simp_all add: record_node_effect)

lemma record_node_opens:
  "remote_opens (trace (record_node n w)) = remote_opens (trace w) + 1"
  by (simp add: record_node_effect)

lemma record_node_launches:
  "launches (trace (record_node n w)) = launches (trace w) @
     [(pipelines_made w, pipeline_description (portal_fds w (fds_taken w)) n
         (crf (pwr w)) (vbv_maxrate (pwr w)) (location (pwr w)))]"
  by (simp add: record_node_effect)

lemma record_streams_opens:
  "remote_opens (trace (record_streams found w)) = remote_opens (trace w) + length found"
  by (induction found w rule: record_streams.induct) (simp_all add: record_node_opens)

lemma record_streams_launches:
  "launches (trace (record_streams found w)) = launches (trace w) @
     map (\<lambda>i. (pipelines_made w + i,
                pipeline_description (portal_fds w (fds_taken w + i)) (fst (found ! i))
                  (crf (pwr w)) (vbv_maxrate (pwr w)) (location (pwr w))))
         [0..<length found]"
proof (induction found w rule: record_streams.induct)
  case (1 w)
  show ?case by simp
next
  case (2 node_id stream_properties rest w)
  show ?case
    by (simp only: 2 record_streams.simps length_Cons upt_0_Suc_shift)
       (simp add: record_node_launches comp_def)
qed

text \<open>
  C4, as the code has it: OpenPipeWireRemote is called once in every \<^verbatim>\<open>_record\<close>, that is
  once for each stream descriptor the callback receives: \<open>N\<close> calls for \<open>N\<close> descriptors,
  and one call in all only when there is one descriptor.
\<close>

theorem remote_opened_once_per_descriptor:
  "remote_opens (trace (record_node node_id w)) = remote_opens (trace w) + 1
   \<and> remote_opens (trace (get_streams_callback (Some found) w)) = remote_opens (trace w) + length found"
  by (simp add: get_streams_callback_def record_node_opens record_streams_opens)

lemma dbus_screencast_effect:
  "dbus_screencast method cb args opts w =
     w\<lparr>dpm := (dpm w)\<lparr>request_token_counter := request_token_counter (dpm w) + 1\<rparr>,
       receivers := receivers w @ [(fst (fst (new_request_path (dpm w))), cb)],
       default_options :=
         (case opts of
            None \<Rightarrow> AList.update ''handle_token'' (PyStr (snd (fst (new_request_path (dpm w)))))
                      (default_options w)
          | Some given \<Rightarrow> default_options w),
       trace := trace w @
         [Add_signal_receiver cb (fst (fst (new_request_path (dpm w)))),
          Portal_call method args
            (AList.update ''handle_token'' (PyStr (snd (fst (new_request_path (dpm w)))))
               (case opts of None \<Rightarrow> default_options w | Some given \<Rightarrow> given))]\<rparr>"
  by (simp add: dbus_screencast_def new_request_path_def emit_def Let_def split: option.splits)

lemma dbus_screencast_fields [simp]:
  "portal_fds (dbus_screencast m h args opts w) = portal_fds w"
  "fds_taken (dbus_screencast m h args opts w) = fds_taken w"
  "pipelines_made (dbus_screencast m h args opts w) = pipelines_made w"
  "callback (dpm (dbus_screencast m h args opts w)) = callback (dpm w)"
  "session (dpm (dbus_screencast m h args opts w)) = session (dpm w)"
  "sender_name (dpm (dbus_screencast m h args opts w)) = sender_name (dpm w)"
  "request_token_counter (dpm (dbus_screencast m h args opts w)) = request_token_counter (dpm w) + 1"
  "remote_opens (trace (dbus_screencast m h args opts w)) = remote_opens (trace w)"
  "launches (trace (dbus_screencast m h args opts w)) = launches (trace w)"
  "timers_started (trace (dbus_screencast m h args opts w)) = timers_started (trace w)"
  "callback_calls (trace (dbus_screencast m h args opts w)) = callback_calls (trace w)"
  "portal_methods (trace (dbus_screencast m h args opts w)) = portal_methods (trace w) @ [m]"
  by (simp_all add: dbus_screencast_effect)

lemma pwr_record_fields:
  "pwr (pwr_record w) = pwr w"
  "callback (dpm (pwr_record w)) = Some Get_streams_callback"
  "portal_fds (pwr_record w) = portal_fds w"
  "fds_taken (pwr_record w) = fds_taken w"
  "pipelines_made (pwr_record w) = pipelines_made w"
  "remote_opens (trace (pwr_record w)) = remote_opens (trace w)"
  "launches (trace (pwr_record w)) = launches (trace w)"
  "timers_started (trace (pwr_record w)) = timers_started (trace w)"
  by (simp_all add: pwr_record_def get_streams_def Let_def)

lemma example_start_fields:
  "pwr example_start = \<lparr>pipeline = None, crf = ''18'', vbv_maxrate = 10000,
     location = ''/home/u/out.mkv'', delayed_terminate_timer = None\<rparr>"
  "portal_fds example_start = int"
  "fds_taken example_start = 0"
  "pipelines_made example_start = 0"
  "trace example_start = []"
  "receivers example_start = []"
  by (simp_all add: example_start_def init_world_def pwr_init_def)

text \<open>
  C4 as stated fails: a Start reply with two descriptors, arriving at the recorder that
  has just begun its handshake, makes two OpenPipeWireRemote calls.
\<close>

theorem remote_opened_twice_counterexample:
  "remote_opens (trace (pwr_record example_start)) = 0
   \<and> streams reply_two_streams = Some [(42, []), (43, [])]
   \<and> remote_opens (trace (state_of (process_streams 0 reply_two_streams (pwr_record example_start)))) = 2"
  by (simp add: process_streams_def call_callback_def get_streams_callback_def Let_def
        record_node_opens pwr_record_fields example_start_fields reply_two_streams_def)

lemma pipeline_description_text:
  "pipeline_description fd node_id crf_text bitrate loc =
     ''pipewiresrc fd='' @ str_int fd
     @ '' path='' @ str_int (int node_id)
     @ '' ! videoconvert ! queue ! x264enc intra-refresh=true quantizer='' @ crf_text
     @ '' speed-preset=fast pass=qual bitrate='' @ str_int bitrate
     @ '' ! h264parse ! matroskamux name=sink ! filesink location=''
     @ [CHR 0x22] @ loc @ [CHR 0x22]"
  unfolding pipeline_description_def by (simp only: append_assoc append.simps)

text \<open>
  C5: a Start reply with response 0 that carries the descriptors \<open>found\<close> makes the
  handler return after exactly \<open>length found\<close> calls of \<open>Gst.parse_launch\<close>, one for
  each descriptor in order; the text launched for the \<open>i\<close>-th has \<^verbatim>\<open>path=\<close> followed by
  the decimal node id of the \<open>i\<close>-th descriptor, after \<^verbatim>\<open>fd=\<close> with the file descriptor
  obtained for it.
\<close>

theorem one_pipeline_per_descriptor:
  assumes "callback (dpm w) = Some Get_streams_callback"
      and "streams res = Some found"
  shows "process_streams 0 res w = Returned (state_of (process_streams 0 res w))
     \<and> launches (trace (state_of (process_streams 0 res w))) = launches (trace w) @
         map (\<lambda>i. (pipelines_made w + i,
                    ''pipewiresrc fd='' @ str_int (portal_fds w (fds_taken w + i))
                    @ '' path='' @ str_int (int (fst (found ! i)))
                    @ '' ! videoconvert ! queue ! x264enc intra-refresh=true quantizer=''
                    @ crf (pwr w)
                    @ '' speed-preset=fast pass=qual bitrate='' @ str_int (vbv_maxrate (pwr w))
                    @ '' ! h264parse ! matroskamux name=sink ! filesink location=''
                    @ [CHR 0x22] @ location (pwr w) @ [CHR 0x22]))
             [0..<length found]
     \<and> length (launches (trace (state_of (process_streams 0 res w))))
         = length (launches (trace w)) + length found"
proof -
  have run: "process_streams 0 res w
               = Returned (record_streams found
                   (emit (Callback_invoked (Some found)) (emit (Print ''Sources selected'') w)))"
    using assms
    by (simp add: process_streams_def call_callback_def get_streams_callback_def Let_def)
  show ?thesis
    unfolding run state_of.simps record_streams_launches pipeline_description_text
    by simp
qed

lemma digit_chars:
  "digit_char 0 = CHR ''0''" "digit_char (Suc 0) = CHR ''1''" "digit_char 2 = CHR ''2''"
  "digit_char 3 = CHR ''3''" "digit_char 4 = CHR ''4''"
  by (simp_all add: digit_char_def char_of_eq_iff)

lemma str_int_examples:
  "str_int 0 = ''0''" "str_int 1 = ''1''" "str_int 42 = ''42''" "str_int 43 = ''43''"
  "str_int 10000 = ''10000''"
  by (simp_all add: str_int_def str_nat.simps digit_chars)

theorem one_pipeline_per_descriptor_witness:
  "callback (dpm (pwr_record example_start)) = Some Get_streams_callback
   \<and> streams reply_two_streams = Some [(42, []), (43, [])]
   \<and> launches (trace (state_of (process_streams 0 reply_two_streams (pwr_record example_start))))
       = [(0, ''pipewiresrc fd=0 path=42 ! videoconvert ! queue ! x264enc intra-refresh=true quantizer=18 speed-preset=fast pass=qual bitrate=10000 ! h264parse ! matroskamux name=sink ! filesink location=''
                @ [CHR 0x22] @ ''/home/u/out.mkv'' @ [CHR 0x22]),
          (1, ''pipewiresrc fd=1 path=43 ! videoconvert ! queue ! x264enc intra-refresh=true quantizer=18 speed-preset=fast pass=qual bitrate=10000 ! h264parse ! matroskamux name=sink ! filesink location=''
                @ [CHR 0x22] @ ''/home/u/out.mkv'' @ [CHR 0x22])]"
proof -
  have cb: "callback (dpm (pwr_record example_start)) = Some Get_streams_callback"
    by (simp add: pwr_record_fields)
  have found: "streams reply_two_streams = Some [(42, []), (43, [])]"
    by (simp add: reply_two_streams_def)
  have upt2: "[0..<Suc (Suc 0)] = [0, Suc 0]"
    by (simp add: upt_rec)
  show ?thesis
    using cb found one_pipeline_per_descriptor [OF cb found]
    by (simp add: pwr_record_fields example_start_fields upt2 str_int_examples)
qed

section \<open>The drain timer\<close>

lemma timer_step_refl: "timer_step w w"
  by (simp add: timer_step_def split: option.splits)

lemma timer_step_trans: "timer_step a b \<Longrightarrow> timer_step b c \<Longrightarrow> timer_step a c"
  by (auto simp: timer_step_def split: option.splits)

lemma timer_step_same:
  "delayed_terminate_timer (pwr w') = delayed_terminate_timer (pwr w) \<Longrightarrow>
   timers_started (trace w') = timers_started (trace w) \<Longrightarrow> timer_step w w'"
  by (simp add: timer_step_def split: option.splits)

lemma timer_step_emit:
  "timers_started [e] = [] \<Longrightarrow> timer_step w (emit e w)"
  by (rule timer_step_same) simp_all

lemma timer_step_delayed_terminate: "timer_step w (delayed_terminate delay w)"
  by (simp add: timer_step_def delayed_terminate_def Let_def split: option.splits)

lemma timer_step_terminate: "timer_step w (terminate w)"
  by (rule timer_step_same) (simp_all add: terminate_def Let_def split: option.splits)

lemma timer_step_softexit: "timer_step w (softexit w)"
proof (cases "pipeline (pwr w)")
  case None
  then show ?thesis by (simp add: softexit_def timer_step_emit)
next
  case (Some p)
  have "timer_step w (emit (Send_eos (Whole_pipeline p))
                        (emit (Print ''Caught SIGINT, trying to exit gracefully.'') w))"
    by (rule timer_step_same) simp_all
  then show ?thesis
    using Some by (simp add: softexit_def) (erule timer_step_trans, rule timer_step_delayed_terminate)
qed

lemma timer_step_gst_message_callback: "timer_step w (state_of (gst_message_callback msg w))"
proof (cases msg)
  case MESSAGE_EOS
  then show ?thesis by (simp add: gst_message_callback_def timer_step_terminate)
next
  case (MESSAGE_ERROR err src)
  show ?thesis
  proof (cases "ResourceError (code err)")
    case (Inl e)
    with MESSAGE_ERROR show ?thesis by (simp add: gst_message_callback_def timer_step_refl)
  next
    case (Inr c)
    show ?thesis
    proof (cases "matches err resource_error_quark c")
      case False
      with MESSAGE_ERROR Inr show ?thesis by (simp add: gst_message_callback_def timer_step_emit)
    next
      case True
      let ?w1 = "delayed_terminate default_delay (emit (Print ''Stream ended, trying to quit gracefully.'') w)"
      have a: "timer_step w ?w1"
        by (rule timer_step_trans [OF timer_step_emit timer_step_delayed_terminate]) simp
      have b: "timer_step ?w1 (emit (Send_eos (Element p ''sink'')) ?w1)" for p
        by (rule timer_step_emit) simp
      from True MESSAGE_ERROR Inr show ?thesis
        using a timer_step_trans [OF a b]
        by (simp add: gst_message_callback_def Let_def split: option.splits)
    qed
  qed
next
  case MESSAGE_OTHER
  then show ?thesis by (simp add: gst_message_callback_def timer_step_refl)
qed

lemma timer_step_record_streams: "timer_step w (record_streams found w)"
proof (rule timer_step_same)
  show "delayed_terminate_timer (pwr (record_streams found w)) = delayed_terminate_timer (pwr w)"
    by (induction found w rule: record_streams.induct) simp_all
  show "timers_started (trace (record_streams found w)) = timers_started (trace w)"
    by (induction found w rule: record_streams.induct) (simp_all add: record_node_effect)
qed

lemma timer_step_get_streams_callback: "timer_step w (get_streams_callback x w)"
  by (simp add: get_streams_callback_def timer_step_terminate timer_step_record_streams
        split: option.splits)

lemma timer_step_call_callback: "timer_step w (state_of (call_callback x w))"
proof -
  have "timer_step w (get_streams_callback x (emit (Callback_invoked x) w))"
    by (rule timer_step_trans [OF timer_step_emit timer_step_get_streams_callback]) simp
  then show ?thesis
    by (simp add: call_callback_def timer_step_refl split: option.splits callback.splits)
qed

lemma timer_step_dbus_screencast: "timer_step w (dbus_screencast m h args opts w)"
  by (rule timer_step_same) simp_all

lemma timer_step_print_call_callback:
  "timer_step w (state_of (call_callback x (emit (Print line) w)))"
  by (rule timer_step_trans [OF timer_step_emit timer_step_call_callback]) simp

lemma timer_step_run_handler: "timer_step w (state_of (run_handler h response res w))"
proof (cases h)
  case Select_sources
  have "timer_step w (dbus_screencast m hd args opts (emit (Print line) (w\<lparr>dpm := d\<rparr>)))"
    for m hd args opts line d
    by (rule timer_step_same) simp_all
  then show ?thesis
    using Select_sources
    by (simp add: select_sources_def Let_def timer_step_print_call_callback timer_step_refl
          split: option.splits)
next
  case Start_portal
  then show ?thesis
    by (simp add: start_portal_def timer_step_print_call_callback timer_step_dbus_screencast)
next
  case Process_streams
  then show ?thesis
    by (simp add: process_streams_def Let_def timer_step_print_call_callback timer_step_emit
          split: option.splits)
qed

lemma timer_step_deliver: "timer_step w (deliver hs response res w)"
proof (induction hs arbitrary: w)
  case Nil
  show ?case by (simp add: timer_step_refl)
next
  case (Cons h hs)
  show ?case
    using timer_step_trans [OF timer_step_run_handler Cons] by simp
qed

lemma timer_step_step: "timer_step w (step e w)"
  by (cases e)
     (simp_all add: on_response_def timer_step_deliver timer_step_gst_message_callback
        timer_step_softexit timer_step_terminate)

lemma timer_step_run: "timer_step w (run evs w)"
proof (induction evs arbitrary: w)
  case Nil
  show ?case by (simp add: timer_step_refl)
next
  case (Cons e evs)
  show ?case
    using timer_step_trans [OF timer_step_step Cons] by simp
qed

text \<open>
  C10: whatever events the run loop dispatches after the program's start, at most one
  timer is ever started; and once the recorder holds a timer, \<open>delayed_terminate\<close>
  changes nothing, \<open>terminate\<close> leaves the field as it is, and no run of events
  replaces the timer or starts another.
\<close>

theorem at_most_one_drain_timer:
  "length (timers_started (trace (run evs (pwr_record (init_world unique_name crf_text maxrate loc fds))))) \<le> 1
   \<and> (delayed_terminate_timer (pwr w) \<noteq> None \<longrightarrow>
        delayed_terminate delay w = w
        \<and> delayed_terminate_timer (pwr (terminate w)) = delayed_terminate_timer (pwr w)
        \<and> delayed_terminate_timer (pwr (run evs w)) = delayed_terminate_timer (pwr w)
        \<and> timers_started (trace (run evs w)) = timers_started (trace w))"
proof -
  let ?w0 = "pwr_record (init_world unique_name crf_text maxrate loc fds)"
  have none: "delayed_terminate_timer (pwr ?w0) = None" and empty: "timers_started (trace ?w0) = []"
    by (simp_all add: pwr_record_fields init_world_def pwr_init_def)
  have "timer_step ?w0 (run evs ?w0)"
    by (rule timer_step_run)
  with none empty have first: "length (timers_started (trace (run evs ?w0))) \<le> 1"
    by (auto simp: timer_step_def)
  have "timer_step w (run evs w)"
    by (rule timer_step_run)
  then have later: "delayed_terminate_timer (pwr w) \<noteq> None \<longrightarrow>
        delayed_terminate_timer (pwr (run evs w)) = delayed_terminate_timer (pwr w)
        \<and> timers_started (trace (run evs w)) = timers_started (trace w)"
    by (auto simp: timer_step_def)
  have same: "delayed_terminate_timer (pwr w) \<noteq> None \<longrightarrow> delayed_terminate delay w = w"
    by (auto simp: delayed_terminate_def)
  from first later same show ?thesis by simp
qed

theorem at_most_one_drain_timer_witness:
  "delayed_terminate_timer (pwr (softexit example_recording)) \<noteq> None
   \<and> delayed_terminate 1 (softexit example_recording) = softexit example_recording
   \<and> timers_started (trace (run [Timer_expired, Sigint] (softexit example_recording)))
       = [\<lparr>interval = 1, func = Terminate\<rparr>]"
proof -
  have p: "pipeline (pwr example_recording) = Some 0"
    by (simp add: example_recording_pwr)
  have held: "delayed_terminate_timer (pwr (softexit example_recording))
                = Some \<lparr>interval = 1, func = Terminate\<rparr>"
    using p by (simp add: softexit_def delayed_terminate_timer default_delay_def example_recording_pwr)
  have started: "timers_started (trace (softexit example_recording)) = [\<lparr>interval = 1, func = Terminate\<rparr>]"
    using p by (simp add: softexit_def delayed_terminate_started default_delay_def
                  example_recording_pwr example_recording_counts)
  show ?thesis
    using at_most_one_drain_timer [where w = "softexit example_recording"
        and evs = "[Timer_expired, Sigint]" and delay = 1]
    by (simp only: held started) simp
qed

section \<open>The handshake stops at the first refusal\<close>

lemma str_int_inject [simp]: "str_int a = str_int b \<longleftrightarrow> a = b"
proof
  assume "str_int a = str_int b"
  then have "int_of_str (str_int a) = int_of_str (str_int b)" by simp
  then show "a = b" by (simp only: int_of_str_str_int)
qed simp

lemma new_request_path_fields [simp]:
  "fst (fst (new_request_path d)) =
     DESKTOP_PATH @ ''/request/'' @ sender_name d @ ''/'' @ ''u'' @ str_int (request_token_counter d + 1)"
  "snd (fst (new_request_path d)) = ''u'' @ str_int (request_token_counter d + 1)"
  by (simp_all add: new_request_path_def Let_def)

lemma terminate_fields [simp]:
  "receivers (terminate w) = receivers w"
  "portal_methods (trace (terminate w)) = portal_methods (trace w)"
  "callback_calls (trace (terminate w)) = callback_calls (trace w)"
  "remote_opens (trace (terminate w)) = remote_opens (trace w)"
  "launches (trace (terminate w)) = launches (trace w)"
  by (simp_all add: terminate_def Let_def split: option.splits)

lemma dbus_screencast_receivers [simp]:
  "receivers (dbus_screencast m h args opts w) =
     receivers w @ [(DESKTOP_PATH @ ''/request/'' @ sender_name (dpm w) @ ''/'' @ ''u''
                       @ str_int (request_token_counter (dpm w) + 1), h)]"
  by (simp add: dbus_screencast_effect)

lemma failed_reply:
  assumes "callback (dpm w) = Some cb"
  shows "receivers (state_of (call_callback None (emit (Print line) w))) = receivers w"
    and "portal_methods (trace (state_of (call_callback None (emit (Print line) w)))) = portal_methods (trace w)"
    and "callback_calls (trace (state_of (call_callback None (emit (Print line) w)))) = callback_calls (trace w) @ [None]"
    and "remote_opens (trace (state_of (call_callback None (emit (Print line) w)))) = remote_opens (trace w)"
    and "launches (trace (state_of (call_callback None (emit (Print line) w)))) = launches (trace w)"
  using assms
  by (simp_all add: call_callback_def get_streams_callback_def split: callback.splits)

lemma get_streams_fields [simp]:
  "receivers (get_streams cb w) =
     receivers w @ [(DESKTOP_PATH @ ''/request/'' @ sender_name (dpm w) @ ''/'' @ ''u''
                       @ str_int (request_token_counter (dpm w) + 1), Select_sources)]"
  "callback (dpm (get_streams cb w)) = Some cb"
  "sender_name (dpm (get_streams cb w)) = sender_name (dpm w)"
  "request_token_counter (dpm (get_streams cb w)) = request_token_counter (dpm w) + 1"
  "portal_methods (trace (get_streams cb w)) = portal_methods (trace w) @ [CreateSession]"
  "callback_calls (trace (get_streams cb w)) = callback_calls (trace w)"
  "remote_opens (trace (get_streams cb w)) = remote_opens (trace w)"
  "launches (trace (get_streams cb w)) = launches (trace w)"
  by (simp_all add: get_streams_def Let_def)

lemma handshake_fail_first:
  assumes "receivers w = []" and "r \<noteq> 0"
  shows "portal_methods (trace (handshake ((r, res) # rest) (get_streams cb w)))
           = portal_methods (trace w) @ [CreateSession]
       \<and> callback_calls (trace (handshake ((r, res) # rest) (get_streams cb w)))
           = callback_calls (trace w) @ [None]
       \<and> remote_opens (trace (handshake ((r, res) # rest) (get_streams cb w))) = remote_opens (trace w)
       \<and> launches (trace (handshake ((r, res) # rest) (get_streams cb w))) = launches (trace w)"
  using assms
  by (simp add: on_response_def select_sources_def Let_def failed_reply [where cb = cb])

lemma select_sources_ok_fields:
  assumes "session_handle res = Some h"
  shows "receivers (state_of (select_sources 0 res w)) =
           receivers w @ [(DESKTOP_PATH @ ''/request/'' @ sender_name (dpm w) @ ''/'' @ ''u''
                             @ str_int (request_token_counter (dpm w) + 1), Start_portal)]"
    and "callback (dpm (state_of (select_sources 0 res w))) = callback (dpm w)"
    and "sender_name (dpm (state_of (select_sources 0 res w))) = sender_name (dpm w)"
    and "request_token_counter (dpm (state_of (select_sources 0 res w))) = request_token_counter (dpm w) + 1"
    and "portal_methods (trace (state_of (select_sources 0 res w))) = portal_methods (trace w) @ [SelectSources]"
    and "callback_calls (trace (state_of (select_sources 0 res w))) = callback_calls (trace w)"
    and "remote_opens (trace (state_of (select_sources 0 res w))) = remote_opens (trace w)"
    and "launches (trace (state_of (select_sources 0 res w))) = launches (trace w)"
  using assms by (simp_all add: select_sources_def Let_def)

lemma start_portal_ok_fields:
  shows "receivers (state_of (start_portal 0 res w)) =
           receivers w @ [(DESKTOP_PATH @ ''/request/'' @ sender_name (dpm w) @ ''/'' @ ''u''
                             @ str_int (request_token_counter (dpm w) + 1), Process_streams)]"
    and "callback (dpm (state_of (start_portal 0 res w))) = callback (dpm w)"
    and "portal_methods (trace (state_of (start_portal 0 res w))) = portal_methods (trace w) @ [Start]"
    and "callback_calls (trace (state_of (start_portal 0 res w))) = callback_calls (trace w)"
    and "remote_opens (trace (state_of (start_portal 0 res w))) = remote_opens (trace w)"
    and "launches (trace (state_of (start_portal 0 res w))) = launches (trace w)"
  by (simp_all add: start_portal_def)

lemma handshake_fail_second:
  assumes "receivers w = []" and "session_handle res0 = Some h" and "r \<noteq> 0"
  shows "portal_methods (trace (handshake ((0, res0) # (r, res) # rest) (get_streams cb w)))
           = portal_methods (trace w) @ [CreateSession, SelectSources]
       \<and> callback_calls (trace (handshake ((0, res0) # (r, res) # rest) (get_streams cb w)))
           = callback_calls (trace w) @ [None]
       \<and> remote_opens (trace (handshake ((0, res0) # (r, res) # rest) (get_streams cb w))) = remote_opens (trace w)
       \<and> launches (trace (handshake ((0, res0) # (r, res) # rest) (get_streams cb w))) = launches (trace w)"
proof -
  let ?w1 = "get_streams cb w"
  let ?w2 = "state_of (select_sources 0 res0 ?w1)"
  have first: "handshake ((0, res0) # (r, res) # rest) ?w1 = handshake ((r, res) # rest) ?w2"
    using assms(1) by (simp add: on_response_def select_sources_ok_fields [OF assms(2)])
  have cb2: "callback (dpm ?w2) = Some cb"
    by (simp add: select_sources_ok_fields [OF assms(2)])
  have second: "handshake ((r, res) # rest) ?w2
                  = state_of (call_callback None
                      (emit (Print (''Failed to select sources: '' @ str_int (int r))) ?w2))"
    using assms(1,3)
    by (simp add: on_response_def select_sources_ok_fields [OF assms(2)] start_portal_def
          failed_reply [OF cb2])
  show ?thesis
    using assms(1)
    by (simp only: first second failed_reply [OF cb2])
       (simp add: select_sources_ok_fields [OF assms(2)])
qed

lemma handshake_fail_third:
  assumes "receivers w = []" and "session_handle res0 = Some h" and "r \<noteq> 0"
  shows "portal_methods (trace (handshake ((0, res0) # (0, res1) # (r, res) # rest) (get_streams cb w)))
           = portal_methods (trace w) @ [CreateSession, SelectSources, Start]
       \<and> callback_calls (trace (handshake ((0, res0) # (0, res1) # (r, res) # rest) (get_streams cb w)))
           = callback_calls (trace w) @ [None]
       \<and> remote_opens (trace (handshake ((0, res0) # (0, res1) # (r, res) # rest) (get_streams cb w))) = remote_opens (trace w)
       \<and> launches (trace (handshake ((0, res0) # (0, res1) # (r, res) # rest) (get_streams cb w))) = launches (trace w)"
proof -
  let ?w1 = "get_streams cb w"
  let ?w2 = "state_of (select_sources 0 res0 ?w1)"
  let ?w3 = "state_of (start_portal 0 res1 ?w2)"
  have first: "handshake ((0, res0) # (0, res1) # (r, res) # rest) ?w1
                 = handshake ((0, res1) # (r, res) # rest) ?w2"
    using assms(1) by (simp add: on_response_def select_sources_ok_fields [OF assms(2)])
  have second: "handshake ((0, res1) # (r, res) # rest) ?w2 = handshake ((r, res) # rest) ?w3"
    using assms(1)
    by (simp add: on_response_def select_sources_ok_fields [OF assms(2)] start_portal_ok_fields)
  have cb3: "callback (dpm ?w3) = Some cb"
    by (simp add: select_sources_ok_fields [OF assms(2)] start_portal_ok_fields)
  have third: "handshake ((r, res) # rest) ?w3
                  = state_of (call_callback None
                      (emit (Print ''Did not receive streams from portal.'') ?w3))"
    using assms(1,3)
    by (simp add: on_response_def select_sources_ok_fields [OF assms(2)] start_portal_ok_fields
          process_streams_def failed_reply [OF cb3])
  show ?thesis
    using assms(1)
    by (simp only: first second third failed_reply [OF cb3])
       (simp add: select_sources_ok_fields [OF assms(2)] start_portal_ok_fields)
qed

text \<open>
  C1: in a handshake run begun by \<open>get_streams\<close> on a bus with no receivers yet, let the
  reply to step \<open>k\<close> (0 CreateSession, 1 SelectSources, 2 Start) be the first with a
  non-zero response code, the earlier replies having code 0 and the session handle.  Then
  the portal methods called are exactly the first \<open>k + 1\<close> of the three, the callback is
  called exactly once and with \<^verbatim>\<open>None\<close>, and neither OpenPipeWireRemote nor a pipeline
  launch happens.
\<close>

theorem handshake_early_exit:
  assumes "receivers w = []"
      and "k < 3" and "k < length replies"
      and "\<forall>i<k. fst (replies ! i) = 0"
      and "0 < k \<longrightarrow> session_handle (snd (replies ! 0)) \<noteq> None"
      and "fst (replies ! k) \<noteq> 0"
  shows "portal_methods (trace (handshake replies (get_streams cb w)))
           = portal_methods (trace w) @ take (Suc k) [CreateSession, SelectSources, Start]
       \<and> callback_calls (trace (handshake replies (get_streams cb w)))
           = callback_calls (trace w) @ [None]
       \<and> remote_opens (trace (handshake replies (get_streams cb w))) = remote_opens (trace w)
       \<and> launches (trace (handshake replies (get_streams cb w))) = launches (trace w)"
proof -
  from assms(2) consider "k = 0" | "k = 1" | "k = 2" by linarith
  then show ?thesis
  proof cases
    case 1
    with assms(3) obtain r res rest where shape: "replies = (r, res) # rest"
      by (cases replies) auto
    with 1 assms(6) have "r \<noteq> 0" by simp
    from handshake_fail_first [OF assms(1) this] show ?thesis
      by (simp add: shape 1)
  next
    case 2
    with assms(3) obtain r0 res0 r res rest where shape: "replies = (r0, res0) # (r, res) # rest"
      by (cases replies; cases "tl replies") auto
    from shape 2 assms(4) have zero: "r0 = 0" by simp
    from shape 2 assms(5) obtain h where handle: "session_handle res0 = Some h" by auto
    from shape 2 assms(6) have "r \<noteq> 0" by simp
    from handshake_fail_second [OF assms(1) handle this] show ?thesis
      by (simp add: shape zero 2)
  next
    case 3
    with assms(3) obtain r0 res0 r1 res1 r res rest
      where shape: "replies = (r0, res0) # (r1, res1) # (r, res) # rest"
      by (cases replies; cases "tl replies"; cases "tl (tl replies)") auto
    have "0 < k" and "1 < k" using 3 by simp_all
    with assms(4) have "fst (replies ! 0) = 0" and "fst (replies ! 1) = 0" by blast+
    with shape have zero: "r0 = 0" "r1 = 0" by simp_all
    from shape 3 assms(5) obtain h where handle: "session_handle res0 = Some h" by auto
    from shape 3 assms(6) have "r \<noteq> 0" by simp
    from handshake_fail_third [OF assms(1) handle this] show ?thesis
      by (simp add: shape zero 3)
  qed
qed

theorem handshake_early_exit_witness:
  "receivers example_start = []
   \<and> fst (replies_refused ! 0) = 0
   \<and> session_handle (snd (replies_refused ! 0)) \<noteq> None
   \<and> fst (replies_refused ! 1) \<noteq> 0
   \<and> portal_methods (trace (handshake replies_refused (get_streams Get_streams_callback example_start)))
       = [CreateSession, SelectSources]
   \<and> callback_calls (trace (handshake replies_refused (get_streams Get_streams_callback example_start)))
       = [None]"
proof -
  have h1: "receivers example_start = []"
    by (simp add: example_start_fields)
  have h2: "(1::nat) < 3" and h3: "1 < length replies_refused"
    by (simp_all add: replies_refused_def)
  have h4: "\<forall>i<1. fst (replies_refused ! i) = 0"
    by (simp add: replies_refused_def)
  have h5: "0 < (1::nat) \<longrightarrow> session_handle (snd (replies_refused ! 0)) \<noteq> None"
    by (simp add: replies_refused_def reply_session_def)
  have h6: "fst (replies_refused ! 1) \<noteq> 0"
    by (simp add: replies_refused_def)
  show ?thesis
    using h1 h4 h5 h6 handshake_early_exit [OF h1 h2 h3 h4 h5 h6, of Get_streams_callback]
    by (simp add: example_start_fields)
qed

end
